theory Spec2Isabelle
  imports Complex_Main
begin

section \<open>Numeric values\<close>

text \<open>
  The notebook computes with numpy \<open>float64\<close> values. They are modelled as exact reals
  extended by \<open>NaN\<close> and the two infinities: a division by zero and the mean of an empty
  array yield \<open>NaN\<close> (numpy warns and goes on), a comparison with \<open>NaN\<close> is false.
  Rounding and overflow of finite values are outside the model, and so is the sign of zero.
\<close>

datatype npfloat = NaN | PInf | NInf | Fin real

datatype error = ValueError | ZeroDivisionError

fun np_add :: "npfloat \<Rightarrow> npfloat \<Rightarrow> npfloat" where
  "np_add (Fin x) (Fin y) = Fin (x + y)"
| "np_add NaN _ = NaN"
| "np_add _ NaN = NaN"
| "np_add PInf NInf = NaN"
| "np_add NInf PInf = NaN"
| "np_add PInf _ = PInf"
| "np_add _ PInf = PInf"
| "np_add NInf _ = NInf"
| "np_add _ NInf = NInf"

definition inf_times :: "npfloat \<Rightarrow> npfloat \<Rightarrow> real \<Rightarrow> npfloat" where
  \<comment> \<open>an infinity \<open>pos\<close>, whose opposite is \<open>neg\<close>, multiplied by the finite value \<open>y\<close>\<close>
  "inf_times pos neg y = (if y = 0 then NaN else if 0 < y then pos else neg)"

fun np_mul :: "npfloat \<Rightarrow> npfloat \<Rightarrow> npfloat" where
  "np_mul (Fin x) (Fin y) = Fin (x * y)"
| "np_mul NaN _ = NaN"
| "np_mul _ NaN = NaN"
| "np_mul PInf PInf = PInf"
| "np_mul PInf NInf = NInf"
| "np_mul NInf PInf = NInf"
| "np_mul NInf NInf = PInf"
| "np_mul PInf (Fin y) = inf_times PInf NInf y"
| "np_mul NInf (Fin y) = inf_times NInf PInf y"
| "np_mul (Fin x) PInf = inf_times PInf NInf x"
| "np_mul (Fin x) NInf = inf_times NInf PInf x"

fun np_div :: "npfloat \<Rightarrow> npfloat \<Rightarrow> npfloat" where
  "np_div (Fin x) (Fin y) =
     (if y = 0 then (if x = 0 then NaN else if 0 < x then PInf else NInf) else Fin (x / y))"
| "np_div NaN _ = NaN"
| "np_div _ NaN = NaN"
| "np_div (Fin x) PInf = Fin 0"
| "np_div (Fin x) NInf = Fin 0"
| "np_div PInf (Fin y) = (if y < 0 then NInf else PInf)"
| "np_div NInf (Fin y) = (if y < 0 then PInf else NInf)"
| "np_div _ _ = NaN"

text \<open>The comparisons \<open>e <= th\<close> and \<open>e > th\<close> of a float with a finite threshold.\<close>

fun np_le :: "npfloat \<Rightarrow> real \<Rightarrow> bool" where
  "np_le (Fin x) th = (x \<le> th)"
| "np_le NInf th = True"
| "np_le PInf th = False"
| "np_le NaN th = False"

fun np_gt :: "npfloat \<Rightarrow> real \<Rightarrow> bool" where
  "np_gt (Fin x) th = (th < x)"
| "np_gt PInf th = True"
| "np_gt NInf th = False"
| "np_gt NaN th = False"

text \<open>
  \<open>np.mean\<close> of a one-dimensional array: the sum divided by the number of elements,
  which is \<open>0 / 0 = nan\<close> for the empty array.
\<close>

definition np_sum :: "npfloat list \<Rightarrow> npfloat" where
  "np_sum xs = foldl np_add (Fin 0) xs"

definition np_mean :: "npfloat list \<Rightarrow> npfloat" where
  "np_mean xs = np_div (np_sum xs) (Fin (real (length xs)))"

section \<open>Two-dimensional arrays and the reconstruction error\<close>

text \<open>
  A two-dimensional array carries its shape beside its rows, so that the shapes
  \<open>(0, 320)\<close> and \<open>(0, 5)\<close> differ although neither has a row.
\<close>

record ndarray =
  nrows :: nat
  ncols :: nat
  data :: "real list list"

definition wf_ndarray :: "ndarray \<Rightarrow> bool" where
  "wf_ndarray a = (length (data a) = nrows a \<and> list_all (\<lambda>r. length r = ncols a) (data a))"

text \<open>
  \<open>eval_features - prediction\<close> is numpy's subtraction, which broadcasts: two sizes of a
  dimension are compatible when they are equal or one of them is 1, the dimension of size 1
  being repeated; otherwise numpy raises \<open>ValueError\<close>.
\<close>

definition broadcastable :: "nat \<Rightarrow> nat \<Rightarrow> bool" where
  "broadcastable m n = (m = n \<or> m = 1 \<or> n = 1)"

definition broadcast_dim :: "nat \<Rightarrow> nat \<Rightarrow> nat" where
  "broadcast_dim m n = (if m = 1 then n else m)"

definition item :: "ndarray \<Rightarrow> nat \<Rightarrow> nat \<Rightarrow> real" where
  \<comment> \<open>the element that position \<open>(i, j)\<close> of the broadcast result reads from \<open>a\<close>\<close>
  "item a i j = data a ! (if nrows a = 1 then 0 else i) ! (if ncols a = 1 then 0 else j)"

definition np_subtract :: "ndarray \<Rightarrow> ndarray \<Rightarrow> error + ndarray" where
  "np_subtract a b =
     (if broadcastable (nrows a) (nrows b) \<and> broadcastable (ncols a) (ncols b) then
        (let r = broadcast_dim (nrows a) (nrows b); c = broadcast_dim (ncols a) (ncols b) in
         Inr \<lparr>nrows = r, ncols = c,
              data = map (\<lambda>i. map (\<lambda>j. item a i j - item b i j) [0..<c]) [0..<r]\<rparr>)
      else Inl ValueError)"

definition np_square :: "ndarray \<Rightarrow> ndarray" where
  "np_square a = a\<lparr>data := map (map (\<lambda>x. x * x)) (data a)\<rparr>"

definition np_mean_axis1 :: "ndarray \<Rightarrow> npfloat list" where
  "np_mean_axis1 a = map (\<lambda>row. np_mean (map Fin row)) (data a)"

text \<open>
  The reconstruction error of one signal:
  \<open>mse = np.mean(np.mean(np.square(eval_features - prediction), axis=1))\<close>.
\<close>

definition score :: "ndarray \<Rightarrow> ndarray \<Rightarrow> error + npfloat" where
  "score eval_features prediction =
     (case np_subtract eval_features prediction of
        Inl e \<Rightarrow> Inl e
      | Inr d \<Rightarrow> Inr (np_mean (np_mean_axis1 (np_square d))))"

text \<open>
  The formula in the words of the specification, over the reals:
  \<open>mean_over_rows(mean_over_columns((in - out)^2))\<close>.
\<close>

definition mean :: "real list \<Rightarrow> real" where
  "mean xs = sum_list xs / real (length xs)"

definition mean_over_columns_sq :: "real list \<Rightarrow> real list \<Rightarrow> real" where
  "mean_over_columns_sq row_in row_out = mean (map (\<lambda>(x, y). (x - y)\<^sup>2) (zip row_in row_out))"

definition score_spec :: "ndarray \<Rightarrow> ndarray \<Rightarrow> real" where
  "score_spec features_in features_out =
     mean (map (\<lambda>(row_in, row_out). mean_over_columns_sq row_in row_out)
            (zip (data features_in) (data features_out)))"

section \<open>Building the train/test split\<close>

text \<open>
  \<open>train_test_split\<close> belongs to scikit-learn; it is a parameter here, and nothing is
  assumed about the four lists it returns. The cell then keeps the normal signals of the
  training files and replaces the training labels by zeros:
  \<open>train_files = [f for f in train_files if f not in abnormal_files]\<close>,
  \<open>train_labels = np.zeros(len(train_files))\<close>.
\<close>

type_synonym splitter =
  "string list \<Rightarrow> real list \<Rightarrow> string list \<times> string list \<times> real list \<times> real list"

definition build_split ::
  "splitter \<Rightarrow> string list \<Rightarrow> string list \<Rightarrow> string list \<times> string list \<times> real list \<times> real list" where
  "build_split train_test_split normal_files abnormal_files =
     (let X = normal_files @ abnormal_files;
          y = replicate (length normal_files) 0 @ replicate (length abnormal_files) 1;
          (train_files, test_files, train_labels, test_labels) = train_test_split X y;
          train_files' = filter (\<lambda>f. f \<notin> set abnormal_files) train_files;
          train_labels' = replicate (length train_files') 0
      in (train_files', test_files, train_labels', test_labels))"

section \<open>Sliding-window features\<close>

definition column :: "ndarray \<Rightarrow> nat \<Rightarrow> real list" where
  \<comment> \<open>\<open>a[:, j]\<close>\<close>
  "column a j = map (\<lambda>row. row ! j) (data a)"

text \<open>
  Modelled from the spec: \<open>sound_tools.extract_signal_features\<close> is called by the notebook
  but its module is not part of the sources. The definition follows steps 3 and 4 of the
  specification's SpectrogramFeaturizer and starts from the log-Mel spectrogram \<open>log_S\<close> of
  shape \<open>(n_mels, T)\<close>: with \<open>T_out = T - frames + 1\<close>, an empty matrix when \<open>T_out < 1\<close>,
  otherwise \<open>T_out\<close> rows, row \<open>i\<close> being the columns \<open>log_S[:, i + f]\<close> for
  \<open>f = 0 .. frames - 1\<close> one after the other.
\<close>

definition extract_features :: "ndarray \<Rightarrow> nat \<Rightarrow> ndarray" where
  "extract_features log_S frames =
     (let n_mels = nrows log_S; T = ncols log_S; T_out = int T - int frames + 1 in
      if T_out < 1 then \<lparr>nrows = 0, ncols = n_mels * frames, data = []\<rparr>
      else \<lparr>nrows = nat T_out, ncols = n_mels * frames,
            data = map (\<lambda>i. concat (map (\<lambda>f. column log_S (i + f)) [0..<frames]))
                     [0..<nat T_out]\<rparr>)"

section \<open>The results table\<close>

text \<open>
  The data frame \<open>df\<close> is a list of rows. The columns \<open>TP\<close>, \<open>TN\<close>, \<open>FP\<close> and \<open>FN\<close> are
  written by \<open>utils.generate_error_types\<close> before they are read; in the fresh table they
  are 0 here. The column \<open>Prediction\<close> of the fresh table is \<open>NaN\<close>, as pandas fills a
  column that was declared and never assigned.
\<close>

record row =
  Signal :: string
  Ground_Truth :: real
  Prediction :: npfloat
  Reconstruction_Error :: npfloat
  TP :: nat
  TN :: nat
  FP :: nat
  FN :: nat

type_synonym dataframe = "row list"

fun zip_rows :: "string list \<Rightarrow> real list \<Rightarrow> npfloat list \<Rightarrow> dataframe" where
  "zip_rows (s # ss) (l # ls) (e # es) =
     \<lparr>Signal = s, Ground_Truth = l, Prediction = NaN, Reconstruction_Error = e,
      TP = 0, TN = 0, FP = 0, FN = 0\<rparr> # zip_rows ss ls es"
| "zip_rows _ _ _ = []"


definition loc_assign :: "(row \<Rightarrow> bool) \<Rightarrow> npfloat \<Rightarrow> dataframe \<Rightarrow> dataframe" where
  \<comment> \<open>\<open>df.loc[cond, 'Prediction'] = v\<close>, the condition given row by row\<close>
  "loc_assign cond v df = map (\<lambda>r. if cond r then r\<lparr>Prediction := v\<rparr> else r) df"

definition set_predictions :: "real \<Rightarrow> dataframe \<Rightarrow> dataframe" where
  \<comment> \<open>the two assignments made for a threshold, in the order of the notebook\<close>
  "set_predictions th df =
     loc_assign (\<lambda>r. np_gt (Reconstruction_Error r) th) (Fin 1)
       (loc_assign (\<lambda>r. np_le (Reconstruction_Error r) th) (Fin 0) df)"

definition indicator :: "bool \<Rightarrow> nat" where
  "indicator b = (if b then 1 else 0)"

text \<open>
  Modelled from the spec: \<open>utils.generate_error_types\<close> is called by the notebook but its
  module is not part of the sources. Following the specification's ThresholdEvaluator, a
  row counts as TP when label = 1 and prediction = 1, as TN when label = 0 and
  prediction = 0, as FP when label = 0 and prediction = 1, and as FN when label = 1 and
  prediction = 0; each of the four columns holds 1 for a row that counts and 0 otherwise.
\<close>

definition generate_error_types :: "dataframe \<Rightarrow> dataframe" where
  "generate_error_types df =
     map (\<lambda>r. r\<lparr>TP := indicator (Ground_Truth r = 1 \<and> Prediction r = Fin 1),
                TN := indicator (Ground_Truth r = 0 \<and> Prediction r = Fin 0),
                FP := indicator (Ground_Truth r = 0 \<and> Prediction r = Fin 1),
                FN := indicator (Ground_Truth r = 1 \<and> Prediction r = Fin 0)\<rparr>) df"

definition column_sum :: "(row \<Rightarrow> nat) \<Rightarrow> dataframe \<Rightarrow> nat" where
  \<comment> \<open>\<open>df[col].sum()\<close>\<close>
  "column_sum col df = sum_list (map col df)"

section \<open>The threshold sweep\<close>


text \<open>
  The loop over the thresholds. The table \<open>df\<close> is threaded through the iterations, as
  the notebook mutates it in place and rebinds it to the result of
  \<open>generate_error_types\<close>; the lists \<open>FN\<close> and \<open>FP\<close> grow by one entry per threshold.
\<close>

fun sweep_loop ::
  "dataframe \<Rightarrow> nat list \<Rightarrow> nat list \<Rightarrow> real list \<Rightarrow> dataframe \<times> nat list \<times> nat list" where
  "sweep_loop df FN_list FP_list [] = (df, FN_list, FP_list)"
| "sweep_loop df FN_list FP_list (th # thresholds) =
     (let df' = generate_error_types (set_predictions th df)
      in sweep_loop df' (FN_list @ [column_sum FN df']) (FP_list @ [column_sum FP df'])
           thresholds)"

record sweep_state =
  table :: dataframe
  thresholds :: "real list"
  FN_counts :: "nat list"
  FP_counts :: "nat list"

definition run_sweep :: "dataframe \<Rightarrow> real list \<Rightarrow> sweep_state" where
  "run_sweep df ths =
     (case sweep_loop df [] [] ths of
        (df', FN_list, FP_list) \<Rightarrow>
          \<lparr>table = df', thresholds = ths, FN_counts = FN_list, FP_counts = FP_list\<rparr>)"






text \<open>
  The prediction a row holds once the two assignments for \<open>th\<close> are done, and the
  counts read from the table after that step.
\<close>

definition predicted :: "real \<Rightarrow> row \<Rightarrow> npfloat" where
  "predicted th r =
     (if np_gt (Reconstruction_Error r) th then Fin 1
      else if np_le (Reconstruction_Error r) th then Fin 0 else Prediction r)"

definition fp_after :: "dataframe \<Rightarrow> real \<Rightarrow> nat" where
  "fp_after df th = length (filter (\<lambda>r. Ground_Truth r = 0 \<and> predicted th r = Fin 1) df)"

definition fn_after :: "dataframe \<Rightarrow> real \<Rightarrow> nat" where
  "fn_after df th = length (filter (\<lambda>r. Ground_Truth r = 1 \<and> predicted th r = Fin 0) df)"

section \<open>Evaluation at one threshold\<close>

text \<open>
  The cell that fixes \<open>th = 6.275\<close>, with the threshold as a parameter: the two assignments,
  \<open>generate_error_types\<close>, and the four column sums \<open>(tp, tn, fn, fp)\<close>. The conversion of
  the column to \<open>float32\<close> keeps the values 0, 1 and \<open>NaN\<close>. The cell goes on to
  invert both columns for the plot of the confusion matrix, after the sums are taken.
\<close>

definition confusion_at :: "dataframe \<Rightarrow> real \<Rightarrow> nat \<times> nat \<times> nat \<times> nat" where
  "confusion_at df th =
     (let df' = generate_error_types (set_predictions th df)
      in (column_sum TP df', column_sum TN df', column_sum FN df', column_sum FP df'))"

record metrics =
  precision :: npfloat
  recall :: npfloat
  accuracy :: npfloat
  f1_score :: npfloat

definition compute_metrics :: "nat \<times> nat \<times> nat \<times> nat \<Rightarrow> metrics" where
  "compute_metrics counts =
     (case counts of (tp, tn, fn, fp) \<Rightarrow>
        (let p = np_div (Fin (real tp)) (Fin (real (tp + fp)));
             r = np_div (Fin (real tp)) (Fin (real (tp + fn)));
             a = np_div (Fin (real (tp + tn))) (Fin (real (tp + tn + fp + fn)));
             f = np_div (np_mul (np_mul (Fin 2) p) r) (np_add p r)
         in \<lparr>precision = p, recall = r, accuracy = a, f1_score = f\<rparr>))"

definition evaluate_at :: "dataframe \<Rightarrow> real \<Rightarrow> metrics" where
  "evaluate_at df th = compute_metrics (confusion_at df th)"

section \<open>Properties of the reconstruction error\<close>

lemma foldl_np_add_Fin: "foldl np_add (Fin s) (map Fin xs) = Fin (s + sum_list xs)"
  by (induction xs arbitrary: s) (simp_all add: add.assoc)

lemma np_sum_Fin: "np_sum (map Fin xs) = Fin (sum_list xs)"
  by (simp add: np_sum_def foldl_np_add_Fin)

lemma np_mean_Fin: "xs \<noteq> [] \<Longrightarrow> np_mean (map Fin xs) = Fin (mean xs)"
  by (simp add: np_mean_def np_sum_Fin mean_def)

lemma item_same: "i < nrows a \<Longrightarrow> j < ncols a \<Longrightarrow> item a i j = data a ! i ! j"
  by (auto simp: item_def)

text \<open>On equal shapes the broadcast subtraction is the element-wise one.\<close>

lemma np_subtract_same_shape:
  assumes "wf_ndarray a" "wf_ndarray b" "nrows a = nrows b" "ncols a = ncols b"
  shows "np_subtract a b =
    Inr \<lparr>nrows = nrows a, ncols = ncols a,
         data = map (\<lambda>(ra, rb). map (\<lambda>(x, y). x - y) (zip ra rb)) (zip (data a) (data b))\<rparr>"
proof -
  have la: "length (data a) = nrows a" and lb: "length (data b) = nrows a"
    using assms by (simp_all add: wf_ndarray_def)
  have ra: "\<And>i. i < nrows a \<Longrightarrow> length (data a ! i) = ncols a"
    using assms(1) by (simp add: wf_ndarray_def list_all_length)
  have rb: "\<And>i. i < nrows a \<Longrightarrow> length (data b ! i) = ncols a"
    using assms(2,3,4) by (simp add: wf_ndarray_def list_all_length)
  have "map (\<lambda>i. map (\<lambda>j. item a i j - item b i j) [0..<ncols a]) [0..<nrows a]
      = map (\<lambda>(ra, rb). map (\<lambda>(x, y). x - y) (zip ra rb)) (zip (data a) (data b))"
  proof (rule nth_equalityI)
    show "length (map (\<lambda>i. map (\<lambda>j. item a i j - item b i j) [0..<ncols a]) [0..<nrows a])
        = length (map (\<lambda>(ra, rb). map (\<lambda>(x, y). x - y) (zip ra rb)) (zip (data a) (data b)))"
      by (simp add: la lb)
  next
    fix i
    assume "i < length (map (\<lambda>i. map (\<lambda>j. item a i j - item b i j) [0..<ncols a]) [0..<nrows a])"
    then have i: "i < nrows a" by simp
    have "map (\<lambda>j. item a i j - item b i j) [0..<ncols a]
        = map (\<lambda>(x, y). x - y) (zip (data a ! i) (data b ! i))"
      by (rule nth_equalityI) (use i assms(3,4) in \<open>simp_all add: ra rb item_same\<close>)
    then show "map (\<lambda>i. map (\<lambda>j. item a i j - item b i j) [0..<ncols a]) [0..<nrows a] ! i
        = map (\<lambda>(ra, rb). map (\<lambda>(x, y). x - y) (zip ra rb)) (zip (data a) (data b)) ! i"
      using i by (simp add: la lb)
  qed
  then show ?thesis
    using assms(3,4) by (simp add: np_subtract_def broadcastable_def broadcast_dim_def)
qed

lemma sum_list_nonneg_real: "(\<And>x. x \<in> set xs \<Longrightarrow> 0 \<le> x) \<Longrightarrow> 0 \<le> sum_list (xs::real list)"
  by (induction xs) auto

lemma mean_nonneg: "(\<And>x. x \<in> set xs \<Longrightarrow> 0 \<le> x) \<Longrightarrow> 0 \<le> mean xs"
  by (simp add: mean_def sum_list_nonneg_real)

lemma mean_over_columns_sq_nonneg: "0 \<le> mean_over_columns_sq r1 r2"
  unfolding mean_over_columns_sq_def by (rule mean_nonneg) auto

lemma score_spec_nonneg: "0 \<le> score_spec a b"
  unfolding score_spec_def by (rule mean_nonneg) (auto simp: mean_over_columns_sq_nonneg)

text \<open>
  C1, as amended. For two well-formed feature matrices of identical shape that have at
  least one row and at least one column, the reconstruction error is the mean over the
  rows of the per-row mean over the columns of the squared element-wise difference, a
  single finite scalar for the whole signal, and it is not negative.
\<close>

theorem score_is_mean_of_row_means:
  assumes "wf_ndarray a" "wf_ndarray b" "nrows a = nrows b" "ncols a = ncols b"
    and "0 < nrows a" "0 < ncols a"
  shows "score a b = Inr (Fin (score_spec a b)) \<and> 0 \<le> score_spec a b"
proof -
  let ?d = "map (\<lambda>(ra, rb). map (\<lambda>(x, y). x - y) (zip ra rb)) (zip (data a) (data b))"
  have la: "length (data a) = nrows a" and lb: "length (data b) = nrows a"
    using assms by (simp_all add: wf_ndarray_def)
  have rowlen: "\<And>ra rb. (ra, rb) \<in> set (zip (data a) (data b)) \<Longrightarrow>
      length ra = ncols a \<and> length rb = ncols a"
    using assms(1,2,4)
    by (auto simp: wf_ndarray_def list_all_iff dest: set_zip_leftD set_zip_rightD)
  have rows: "map (\<lambda>row. np_mean (map Fin row)) (map (map (\<lambda>x. x * x)) ?d)
      = map Fin (map (\<lambda>(ra, rb). mean_over_columns_sq ra rb) (zip (data a) (data b)))"
  proof -
    have "\<And>ra rb. (ra, rb) \<in> set (zip (data a) (data b)) \<Longrightarrow>
        np_mean (map Fin (map (\<lambda>x. x * x) (map (\<lambda>(x, y). x - y) (zip ra rb))))
        = Fin (mean_over_columns_sq ra rb)"
    proof -
      fix ra rb
      assume m: "(ra, rb) \<in> set (zip (data a) (data b))"
      then have ne: "map (\<lambda>(x, y). (x - y)\<^sup>2) (zip ra rb) \<noteq> []"
        using rowlen[OF m] assms(6) by (cases ra; cases rb) auto
      have "map (\<lambda>x. x * x) (map (\<lambda>(x, y). x - y) (zip ra rb))
          = map (\<lambda>(x, y). (x - y)\<^sup>2) (zip ra rb)"
        by (simp add: power2_eq_square case_prod_beta)
      then show "np_mean (map Fin (map (\<lambda>x. x * x) (map (\<lambda>(x, y). x - y) (zip ra rb))))
          = Fin (mean_over_columns_sq ra rb)"
        using np_mean_Fin[OF ne] by (simp only: mean_over_columns_sq_def)
    qed
    then show ?thesis by (auto simp: case_prod_beta)
  qed
  have ne: "map (\<lambda>(ra, rb). mean_over_columns_sq ra rb) (zip (data a) (data b)) \<noteq> []"
    using la lb assms(5) by (cases "data a"; cases "data b") auto
  have "score a b = Inr (np_mean (map (\<lambda>row. np_mean (map Fin row)) (map (map (\<lambda>x. x * x)) ?d)))"
    by (simp add: score_def np_subtract_same_shape[OF assms(1-4)] np_mean_axis1_def np_square_def)
  also have "\<dots> = Inr (Fin (score_spec a b))"
    unfolding rows using np_mean_Fin[OF ne] by (simp add: score_spec_def)
  finally show ?thesis by (simp add: score_spec_nonneg)
qed

text \<open>
  The theorem at \<open>[[1, 2], [3, 4]]\<close> against \<open>[[1, 0], [0, 0]]\<close>: the row means of the
  squared differences are 2 and 25/2, the score is 29/4.
\<close>

theorem score_is_mean_of_row_means_witness:
  "wf_ndarray \<lparr>nrows = 2, ncols = 2, data = [[1, 2], [3, 4]]\<rparr>
   \<and> wf_ndarray \<lparr>nrows = 2, ncols = 2, data = [[1, 0], [0, 0]]\<rparr>
   \<and> score \<lparr>nrows = 2, ncols = 2, data = [[1, 2], [3, 4]]\<rparr>
            \<lparr>nrows = 2, ncols = 2, data = [[1, 0], [0, 0]]\<rparr> = Inr (Fin (29 / 4))"
proof -
  let ?a = "\<lparr>nrows = 2, ncols = 2, data = [[1, 2], [3, 4]]\<rparr>"
  let ?b = "\<lparr>nrows = 2, ncols = 2, data = [[1, 0], [0, 0]]\<rparr>"
  have wa: "wf_ndarray ?a" and wb: "wf_ndarray ?b"
    by (simp_all add: wf_ndarray_def)
  have v: "score_spec ?a ?b = 29 / 4"
    by (simp add: score_spec_def mean_over_columns_sq_def mean_def)
  from score_is_mean_of_row_means[OF wa wb] have "score ?a ?b = Inr (Fin (score_spec ?a ?b))"
    by simp
  with wa wb v show ?thesis by simp
qed

text \<open>
  Two matrices of the identical shape \<open>(0, 2)\<close>, as a signal shorter than \<open>frames\<close> time
  steps yields: the inner mean has no row to work on, the outer mean is taken over the
  empty array, and the score is \<open>NaN\<close>.
\<close>

theorem score_empty_counterexample:
  "wf_ndarray \<lparr>nrows = 0, ncols = 2, data = []\<rparr>
   \<and> score \<lparr>nrows = 0, ncols = 2, data = []\<rparr> \<lparr>nrows = 0, ncols = 2, data = []\<rparr> = Inr NaN"
  by (simp add: wf_ndarray_def score_def np_subtract_def broadcastable_def broadcast_dim_def
      np_square_def np_mean_axis1_def np_mean_def np_sum_def)




section \<open>Properties of the decision rule and of the sweep\<close>

lemma np_le_gt_excl: "np_le e th \<Longrightarrow> \<not> np_gt e th"
  by (cases e) auto

lemma np_le_or_gt: "e \<noteq> NaN \<Longrightarrow> np_le e th \<or> np_gt e th"
  by (cases e) auto

lemma np_gt_antimono: "th1 \<le> th2 \<Longrightarrow> np_gt e th2 \<Longrightarrow> np_gt e th1"
  by (cases e) auto

lemma np_le_mono: "th1 \<le> th2 \<Longrightarrow> np_le e th1 \<Longrightarrow> np_le e th2"
  by (cases e) auto

text \<open>The two assignments, row by row.\<close>

lemma set_predictions_map:
  "set_predictions th df = map (\<lambda>r. r\<lparr>Prediction := predicted th r\<rparr>) df"
  by (auto simp: set_predictions_def loc_assign_def predicted_def dest: np_le_gt_excl)


text \<open>
  C2. After the two assignments for a threshold \<open>th\<close>, a row whose error \<open>e\<close> satisfies
  \<open>e <= th\<close> holds the prediction 0 (normal) and a row with \<open>e > th\<close> holds the
  prediction 1 (abnormal); an error equal to the threshold is classified as normal. For
  every error that is a number the prediction is 0 if \<open>e <= th\<close> and 1 otherwise.
\<close>

theorem prediction_rule:
  assumes "i < length df"
  shows "let e = Reconstruction_Error (df ! i); p = Prediction (set_predictions th df ! i) in
       (np_le e th \<longrightarrow> p = Fin 0) \<and> (np_gt e th \<longrightarrow> p = Fin 1) \<and> (e = Fin th \<longrightarrow> p = Fin 0)
       \<and> (e \<noteq> NaN \<longrightarrow> p = (if np_le e th then Fin 0 else Fin 1))"
  using assms
  by (auto simp: Let_def set_predictions_map predicted_def dest: np_le_gt_excl np_le_or_gt)

text \<open>
  The theorem on the fresh table of two signals with the errors 5 and 6, at the
  threshold 5: the first is normal, the second abnormal.
\<close>

theorem prediction_rule_witness:
  "(0::nat) < length (zip_rows [''a'', ''b''] [0, 1] [Fin 5, Fin 6])
   \<and> Prediction (set_predictions 5 (zip_rows [''a'', ''b''] [0, 1] [Fin 5, Fin 6]) ! 0) = Fin 0
   \<and> Prediction (set_predictions 5 (zip_rows [''a'', ''b''] [0, 1] [Fin 5, Fin 6]) ! 1) = Fin 1"
  using prediction_rule[of 0 "zip_rows [''a'', ''b''] [0, 1] [Fin 5, Fin 6]" 5]
    prediction_rule[of 1 "zip_rows [''a'', ''b''] [0, 1] [Fin 5, Fin 6]" 5]
  by (simp add: Let_def)

text \<open>What the loop records.\<close>

lemma sum_list_indicator: "sum_list (map (\<lambda>x. indicator (P x)) xs) = length (filter P xs)"
  by (induction xs) (auto simp: indicator_def)

lemma column_sum_FP_step:
  "column_sum FP (generate_error_types (set_predictions th df)) = fp_after df th"
  by (simp add: column_sum_def generate_error_types_def set_predictions_map fp_after_def
      comp_def sum_list_indicator)

lemma column_sum_FN_step:
  "column_sum FN (generate_error_types (set_predictions th df)) = fn_after df th"
  by (simp add: column_sum_def generate_error_types_def set_predictions_map fn_after_def
      comp_def sum_list_indicator)

text \<open>
  A step for \<open>th\<close> changes no later prediction: a row that either comparison selects is
  assigned again, and a row that neither selects keeps what it had.
\<close>

lemma predicted_step:
  "predicted th' (r\<lparr>Prediction := predicted th r, TP := a, TN := b, FP := c, FN := d\<rparr>)
     = predicted th' r"
  by (cases "Reconstruction_Error r") (auto simp: predicted_def)

lemma fp_after_step:
  "fp_after (generate_error_types (set_predictions th df)) th' = fp_after df th'"
  by (simp add: fp_after_def generate_error_types_def set_predictions_map filter_map comp_def
      predicted_step)

lemma fn_after_step:
  "fn_after (generate_error_types (set_predictions th df)) th' = fn_after df th'"
  by (simp add: fn_after_def generate_error_types_def set_predictions_map filter_map comp_def
      predicted_step)

lemma sweep_loop_counts:
  "sweep_loop df FN_list FP_list ths = (df', FN', FP') \<Longrightarrow>
     FN' = FN_list @ map (fn_after df) ths \<and> FP' = FP_list @ map (fp_after df) ths"
proof (induction ths arbitrary: df FN_list FP_list)
  case Nil
  then show ?case by simp
next
  case (Cons th ths)
  let ?d = "generate_error_types (set_predictions th df)"
  from Cons.prems have
    "sweep_loop ?d (FN_list @ [column_sum FN ?d]) (FP_list @ [column_sum FP ?d]) ths
       = (df', FN', FP')"
    by (simp add: Let_def)
  from Cons.IH[OF this] show ?case
    by (simp add: column_sum_FP_step column_sum_FN_step fp_after_step fn_after_step
        cong: map_cong)
qed

lemma run_sweep_counts:
  "thresholds (run_sweep df ths) = ths
   \<and> FP_counts (run_sweep df ths) = map (fp_after df) ths
   \<and> FN_counts (run_sweep df ths) = map (fn_after df) ths"
proof -
  obtain d f p where e: "sweep_loop df [] [] ths = (d, f, p)"
    by (cases "sweep_loop df [] [] ths") auto
  from sweep_loop_counts[OF e] e show ?thesis
    by (simp add: run_sweep_def)
qed

lemma length_filter_mono:
  "(\<And>x. x \<in> set xs \<Longrightarrow> P x \<Longrightarrow> Q x) \<Longrightarrow> length (filter P xs) \<le> length (filter Q xs)"
  by (induction xs) auto

lemma fp_after_antimono: "th1 \<le> th2 \<Longrightarrow> fp_after df th2 \<le> fp_after df th1"
  unfolding fp_after_def
  by (rule length_filter_mono)
    (auto simp: predicted_def split: if_splits dest: np_gt_antimono np_le_mono)

lemma fn_after_mono: "th1 \<le> th2 \<Longrightarrow> fn_after df th1 \<le> fn_after df th2"
  unfolding fn_after_def
  by (rule length_filter_mono)
    (auto simp: predicted_def split: if_splits dest: np_gt_antimono np_le_mono)

text \<open>
  C6. For a fixed table and any two swept thresholds \<open>th1 < th2\<close>, the false-positive
  count recorded at \<open>th2\<close> is at most the one recorded at \<open>th1\<close>, and the false-negative
  count recorded at \<open>th2\<close> is at least the one recorded at \<open>th1\<close>, wherever the two
  thresholds stand in the swept list.
\<close>

theorem sweep_fp_fn_monotone:
  assumes "i < length ths" "j < length ths" "ths ! i < ths ! j"
  shows "FP_counts (run_sweep df ths) ! j \<le> FP_counts (run_sweep df ths) ! i
       \<and> FN_counts (run_sweep df ths) ! i \<le> FN_counts (run_sweep df ths) ! j"
  using assms run_sweep_counts[of df ths]
  by (simp add: fp_after_antimono fn_after_mono)

text \<open>
  The theorem on two signals with the errors 1 and 9, one normal and one abnormal, swept
  at 0 and 5: the false positives fall from 1 to 0, the false negatives stay at 0; at 10
  the abnormal signal would be missed.
\<close>

theorem sweep_fp_fn_monotone_witness:
  "(0::nat) < length [0, 5 :: real] \<and> (1::nat) < length [0, 5 :: real]
   \<and> [0, 5 :: real] ! 0 < [0, 5 :: real] ! 1
   \<and> FP_counts (run_sweep (zip_rows [''a'', ''b''] [0, 1] [Fin 1, Fin 9]) [0, 5]) ! 1
       \<le> FP_counts (run_sweep (zip_rows [''a'', ''b''] [0, 1] [Fin 1, Fin 9]) [0, 5]) ! 0
   \<and> FN_counts (run_sweep (zip_rows [''a'', ''b''] [0, 1] [Fin 1, Fin 9]) [0, 5]) ! 0
       \<le> FN_counts (run_sweep (zip_rows [''a'', ''b''] [0, 1] [Fin 1, Fin 9]) [0, 5]) ! 1
   \<and> FP_counts (run_sweep (zip_rows [''a'', ''b''] [0, 1] [Fin 1, Fin 9]) [0, 5]) = [1, 0]"
proof -
  have v: "FP_counts (run_sweep (zip_rows [''a'', ''b''] [0, 1] [Fin 1, Fin 9]) [0, 5]) = [1, 0]"
    by (simp add: run_sweep_def Let_def generate_error_types_def set_predictions_def
        loc_assign_def column_sum_def indicator_def)
  from sweep_fp_fn_monotone[of 0 "[0, 5]" 1 "zip_rows [''a'', ''b''] [0, 1] [Fin 1, Fin 9]"] v
  show ?thesis by simp
qed





section \<open>Properties of the swept thresholds\<close>





section \<open>Properties of the evaluation at one threshold\<close>




text \<open>
  C4, as amended. From the counts \<open>(tp, tn, fn, fp)\<close> of the evaluation, precision is
  \<open>tp / (tp + fp)\<close>, recall is \<open>tp / (tp + fn)\<close>, accuracy is \<open>(tp + tn) / total\<close> and F1 is
  \<open>2 P R / (P + R)\<close>, each whenever its denominator is not zero. No metric is guarded:
  with a zero denominator the division is \<open>0 / 0\<close> and the metric is \<open>NaN\<close>, and F1 is
  \<open>NaN\<close> whenever there is no true positive.
\<close>

theorem metrics_formulas:
  assumes "confusion_at df th = (tp, tn, fn, fp)"
  shows "(0 < tp + fp \<longrightarrow> precision (evaluate_at df th) = Fin (real tp / real (tp + fp)))
     \<and> (0 < tp + fn \<longrightarrow> recall (evaluate_at df th) = Fin (real tp / real (tp + fn)))
     \<and> (0 < tp + tn + fp + fn \<longrightarrow>
          accuracy (evaluate_at df th) = Fin (real (tp + tn) / real (tp + tn + fp + fn)))
     \<and> (0 < tp \<longrightarrow> f1_score (evaluate_at df th) =
          Fin (2 * (real tp / real (tp + fp)) * (real tp / real (tp + fn))
               / (real tp / real (tp + fp) + real tp / real (tp + fn))))
     \<and> (tp + fp = 0 \<longrightarrow> precision (evaluate_at df th) = NaN)
     \<and> (tp + fn = 0 \<longrightarrow> recall (evaluate_at df th) = NaN)
     \<and> (tp + tn + fp + fn = 0 \<longrightarrow> accuracy (evaluate_at df th) = NaN)
     \<and> (tp = 0 \<longrightarrow> f1_score (evaluate_at df th) = NaN)"
proof -
  have pos: "0 < tp \<Longrightarrow> real tp / real (tp + fp) + real tp / real (tp + fn) \<noteq> 0"
  proof -
    assume "0 < tp"
    then have "0 < real tp / real (tp + fp)" "0 < real tp / real (tp + fn)" by simp_all
    then show ?thesis by linarith
  qed
  show ?thesis
    using pos by (auto simp: evaluate_at_def assms compute_metrics_def Let_def)
qed

text \<open>
  The theorem on the errors 1, 2, 3, 4, 5 with the labels 0, 0, 1, 1, 1 at the
  threshold 2.5: precision, recall, accuracy and F1 are all 1.
\<close>

theorem metrics_formulas_witness:
  "confusion_at (zip_rows [''a'', ''b'', ''c'', ''d'', ''e''] [0, 0, 1, 1, 1]
                   [Fin 1, Fin 2, Fin 3, Fin 4, Fin 5]) (5 / 2) = (3, 2, 0, 0)
   \<and> precision (evaluate_at (zip_rows [''a'', ''b'', ''c'', ''d'', ''e''] [0, 0, 1, 1, 1]
                   [Fin 1, Fin 2, Fin 3, Fin 4, Fin 5]) (5 / 2)) = Fin 1
   \<and> recall (evaluate_at (zip_rows [''a'', ''b'', ''c'', ''d'', ''e''] [0, 0, 1, 1, 1]
                   [Fin 1, Fin 2, Fin 3, Fin 4, Fin 5]) (5 / 2)) = Fin 1
   \<and> accuracy (evaluate_at (zip_rows [''a'', ''b'', ''c'', ''d'', ''e''] [0, 0, 1, 1, 1]
                   [Fin 1, Fin 2, Fin 3, Fin 4, Fin 5]) (5 / 2)) = Fin 1
   \<and> f1_score (evaluate_at (zip_rows [''a'', ''b'', ''c'', ''d'', ''e''] [0, 0, 1, 1, 1]
                   [Fin 1, Fin 2, Fin 3, Fin 4, Fin 5]) (5 / 2)) = Fin 1"
proof -
  let ?df = "zip_rows [''a'', ''b'', ''c'', ''d'', ''e''] [0, 0, 1, 1, 1]
               [Fin 1, Fin 2, Fin 3, Fin 4, Fin 5]"
  have c: "confusion_at ?df (5 / 2) = (3, 2, 0, 0)"
    by (simp add: confusion_at_def Let_def generate_error_types_def set_predictions_def
        loc_assign_def column_sum_def indicator_def)
  from metrics_formulas[OF c] c show ?thesis by simp
qed

text \<open>
  One normal signal with the error 1, evaluated at the notebook's threshold 6.275: it is
  a true negative, nothing is predicted abnormal and nothing is abnormal, so precision
  and recall are \<open>0 / 0\<close>; both are \<open>NaN\<close>, and so is F1.
\<close>

theorem metrics_unguarded_counterexample:
  "confusion_at (zip_rows [''a''] [0] [Fin 1]) (251 / 40) = (0, 1, 0, 0)
   \<and> precision (evaluate_at (zip_rows [''a''] [0] [Fin 1]) (251 / 40)) = NaN
   \<and> recall (evaluate_at (zip_rows [''a''] [0] [Fin 1]) (251 / 40)) = NaN
   \<and> accuracy (evaluate_at (zip_rows [''a''] [0] [Fin 1]) (251 / 40)) = Fin 1
   \<and> f1_score (evaluate_at (zip_rows [''a''] [0] [Fin 1]) (251 / 40)) = NaN"
  by (simp add: evaluate_at_def compute_metrics_def confusion_at_def Let_def
      generate_error_types_def set_predictions_def loc_assign_def column_sum_def
      indicator_def)

section \<open>Properties of the split and of the features\<close>

text \<open>
  C7. Whatever the stratified split returns, the training paths that come out of the
  cell contain no path of the abnormal files, and every training label is 0, one per
  training path.
\<close>

theorem build_split_train_normal_only:
  assumes "build_split train_test_split normal_files abnormal_files
             = (train_files, test_files, train_labels, test_labels)"
  shows "set train_files \<inter> set abnormal_files = {}
       \<and> (\<forall>l\<in>set train_labels. l = 0) \<and> length train_labels = length train_files"
  using assms by (auto simp: build_split_def Let_def split: prod.splits)

text \<open>
  The theorem for a split that puts every file into the training part: of one normal
  and one abnormal file, the normal one is kept, with the label 0.
\<close>

theorem build_split_train_normal_only_witness:
  "build_split (\<lambda>X y. (X, [], y, [])) [''n.wav''] [''a.wav''] = ([''n.wav''], [], [0], [])
   \<and> set [''n.wav''] \<inter> set [''a.wav''] = {}
   \<and> length [0 :: real] = length [''n.wav'']"
proof -
  have b: "build_split (\<lambda>X y. (X, [], y, [])) [''n.wav''] [''a.wav''] = ([''n.wav''], [], [0], [])"
    by (simp add: build_split_def Let_def)
  from build_split_train_normal_only[OF b] b show ?thesis by simp
qed

lemma length_concat_const:
  "(\<And>x. x \<in> set xs \<Longrightarrow> length (g x) = n) \<Longrightarrow> length (concat (map g xs)) = length xs * n"
  by (induction xs) auto

lemma nth_concat_const:
  "(\<And>x. x \<in> set xs \<Longrightarrow> length (g x) = n) \<Longrightarrow> k < length xs \<Longrightarrow> m < n \<Longrightarrow>
     concat (map g xs) ! (k * n + m) = g (xs ! k) ! m"
proof (induction xs arbitrary: k)
  case Nil
  then show ?case by simp
next
  case (Cons x xs)
  show ?case
  proof (cases k)
    case 0
    then show ?thesis using Cons.prems by (simp add: nth_append)
  next
    case (Suc k')
    have "concat (map g (x # xs)) ! (k * n + m) = concat (map g xs) ! (k' * n + m)"
      using Cons.prems(1)[of x] Suc by (simp add: nth_append)
    also have "\<dots> = g (xs ! k') ! m"
      using Cons.prems Suc by (intro Cons.IH) auto
    finally show ?thesis using Suc by simp
  qed
qed

lemma length_column: "length (column a j) = length (data a)"
  by (simp add: column_def)

text \<open>
  C9. For a well-formed log-Mel spectrogram of shape \<open>(n_mels, T)\<close> with \<open>n_mels > 0\<close>
  and for \<open>frames > 0\<close>, the feature matrix has \<open>max(0, T - frames + 1)\<close> rows and
  \<open>n_mels * frames\<close> columns; row \<open>i\<close> is the concatenation of the columns
  \<open>log_S[:, i], ..., log_S[:, i + frames - 1]\<close> in this order, so that its entry
  \<open>f * n_mels + m\<close> is \<open>log_S[m, i + f]\<close>; and for \<open>T < frames\<close> the result has no row.
  The function is total: no input makes it fail.
\<close>

theorem extract_features_shape:
  assumes "wf_ndarray log_S" "0 < nrows log_S" "0 < frames"
  shows "let F = extract_features log_S frames; n_mels = nrows log_S; T = ncols log_S in
       nrows F = nat (max 0 (int T - int frames + 1)) \<and> ncols F = n_mels * frames
     \<and> wf_ndarray F
     \<and> (\<forall>i<nrows F. data F ! i = concat (map (\<lambda>f. column log_S (i + f)) [0..<frames]))
     \<and> (\<forall>i<nrows F. \<forall>f<frames. \<forall>m<n_mels.
            data F ! i ! (f * n_mels + m) = data log_S ! m ! (i + f))
     \<and> (T < frames \<longrightarrow> nrows F = 0 \<and> data F = [])"
proof -
  have len: "length (data log_S) = nrows log_S"
    using assms(1) by (simp add: wf_ndarray_def)
  have rowlen: "length (concat (map (\<lambda>f. column log_S (i + f)) [0..<frames]))
      = nrows log_S * frames" for i
    using length_concat_const[of "[0..<frames]" "\<lambda>f. column log_S (i + f)" "nrows log_S"]
    by (simp add: length_column len mult.commute)
  have el: "concat (map (\<lambda>f. column log_S (i + f)) [0..<frames]) ! (f * nrows log_S + m)
        = data log_S ! m ! (i + f)" if "f < frames" "m < nrows log_S" for i f m
    using nth_concat_const[of "[0..<frames]" "\<lambda>f. column log_S (i + f)" "nrows log_S" f m] that
    by (simp add: length_column len) (simp add: column_def len)
  show ?thesis
    by (auto simp: extract_features_def Let_def wf_ndarray_def list_all_iff rowlen el)
qed

text \<open>
  The theorem on the \<open>2 \<times> 4\<close> spectrogram \<open>[[1, 2, 3, 4], [5, 6, 7, 8]]\<close> with two
  frames: three rows of four columns, \<open>[1, 5, 2, 6]\<close>, \<open>[2, 6, 3, 7]\<close> and \<open>[3, 7, 4, 8]\<close>.
\<close>

theorem extract_features_shape_witness:
  "wf_ndarray \<lparr>nrows = 2, ncols = 4, data = [[1, 2, 3, 4], [5, 6, 7, 8]]\<rparr>
   \<and> (0::nat) < nrows \<lparr>nrows = 2, ncols = 4, data = [[1, 2, 3, 4], [5, 6, 7, 8]]\<rparr>
   \<and> (0::nat) < 2
   \<and> wf_ndarray (extract_features \<lparr>nrows = 2, ncols = 4, data = [[1, 2, 3, 4], [5, 6, 7, 8]]\<rparr> 2)
   \<and> extract_features \<lparr>nrows = 2, ncols = 4, data = [[1, 2, 3, 4], [5, 6, 7, 8]]\<rparr> 2
       = \<lparr>nrows = 3, ncols = 4, data = [[1, 5, 2, 6], [2, 6, 3, 7], [3, 7, 4, 8]]\<rparr>"
proof -
  let ?S = "\<lparr>nrows = 2, ncols = 4, data = [[1, 2, 3, 4], [5, 6, 7, 8]]\<rparr>"
  have w: "wf_ndarray ?S" by (simp add: wf_ndarray_def)
  have v: "extract_features ?S 2
      = \<lparr>nrows = 3, ncols = 4, data = [[1, 5, 2, 6], [2, 6, 3, 7], [3, 7, 4, 8]]\<rparr>"
    by (simp add: extract_features_def Let_def column_def upt_rec)
  from extract_features_shape[OF w, of 2] have "wf_ndarray (extract_features ?S 2)"
    by (simp add: Let_def)
  with w v show ?thesis by simp
qed

end
